theory Spec2Isabelle
  imports Complex_Main
begin

section \<open>The fixed-coordinate editor (component CanvasMy)\<close>

text \<open>
  JavaScript numbers are modelled as real numbers: every arithmetic expression of the
  source is read with exact arithmetic. Strings are lists of characters, a character
  being a code unit below 256.
\<close>

subsection \<open>Data\<close>

text \<open>The interface Table. The fields carry a prefix, the names being the source's.\<close>

record table =
  t_id :: string
  t_x :: real
  t_y :: real
  t_width :: real
  t_height :: real
  t_rotation :: real
  t_seats :: int
  t_number :: string
  t_isSelected :: bool

text \<open>
  The component's state: \<open>dimensions\<close> (its two fields), \<open>tables\<close>,
  \<open>selectedTableId\<close> (\<open>None\<close> is \<open>null\<close>), \<open>seatsForNewTable\<close>, \<open>tableNumber\<close>.
\<close>

record canvas_state =
  dimWidth :: real
  dimHeight :: real
  tables :: "table list"
  selectedTableId :: "string option"
  seatsForNewTable :: int
  tableNumber :: string

subsection \<open>String.prototype.trim\<close>

text \<open>
  The white space and line terminators of ECMAScript among the code units below 256:
  TAB, LF, VT, FF, CR, SP and NBSP.
\<close>

definition isWhiteSpace :: "char \<Rightarrow> bool" where
  "isWhiteSpace c = (of_char c \<in> {9, 10, 11, 12, 13, 32, 160 :: nat})"

definition trim :: "string \<Rightarrow> string" where
  "trim s = rev (dropWhile isWhiteSpace (rev (dropWhile isWhiteSpace s)))"

subsection \<open>tablesOverlap\<close>

definition tablesOverlap :: "table \<Rightarrow> table \<Rightarrow> real \<Rightarrow> bool" where
  "tablesOverlap table1 table2 buffer =
     (\<not> (t_x table1 + t_width table1 + buffer < t_x table2
        \<or> t_x table1 > t_x table2 + t_width table2 + buffer
        \<or> t_y table1 + t_height table1 + buffer < t_y table2
        \<or> t_y table1 > t_y table2 + t_height table2 + buffer))"

text \<open>The default value of the parameter \<open>buffer\<close>.\<close>

definition defaultBuffer :: real where
  "defaultBuffer = 1"

subsection \<open>findNonOverlappingPosition\<close>

text \<open>
  \<open>Math.random\<close> is a source of numbers: \<open>rnd k\<close> is what its \<open>k\<close>-th call inside the
  search returns. Iteration number \<open>attempts\<close> of the do-while loop makes the calls
  \<open>2 * attempts\<close> (for \<open>x\<close>) and \<open>2 * attempts + 1\<close> (for \<open>y\<close>). The body runs before the
  test, so at least once.
\<close>

function placementLoop ::
  "real \<Rightarrow> real \<Rightarrow> table list \<Rightarrow> (nat \<Rightarrow> real) \<Rightarrow> int \<Rightarrow> table \<Rightarrow> nat \<Rightarrow> table" where
  "placementLoop w h ts rnd maxAttempts position attempts =
     (let position' = position
            \<lparr>t_x := rnd (2 * attempts) * (w - t_width position - 50) + 50,
             t_y := rnd (2 * attempts + 1) * (h - t_height position - 50) + 50\<rparr>;
          overlapping = list_ex (\<lambda>t. tablesOverlap position' t defaultBuffer) ts;
          attempts' = attempts + 1
      in if overlapping \<and> int attempts' < maxAttempts
         then placementLoop w h ts rnd maxAttempts position' attempts'
         else position')"
  by pat_completeness auto
termination
  by (relation "measure (\<lambda>(w, h, ts, rnd, maxAttempts, position, attempts).
        nat (maxAttempts - int attempts))") auto

declare placementLoop.simps [simp del]

definition findNonOverlappingPosition ::
  "real \<Rightarrow> real \<Rightarrow> table list \<Rightarrow> (nat \<Rightarrow> real) \<Rightarrow> table \<Rightarrow> int \<Rightarrow> table" where
  "findNonOverlappingPosition w h ts rnd newTable maxAttempts =
     (if length ts = 0 then newTable
      else placementLoop w h ts rnd maxAttempts newTable 0)"

text \<open>The default value of the parameter \<open>maxAttempts\<close>.\<close>

definition defaultMaxAttempts :: int where
  "defaultMaxAttempts = 50"

subsection \<open>addTable\<close>

text \<open>The two messages \<open>addTable\<close> alerts, under the names of the specification.\<close>

definition MissingLabel :: string where
  "MissingLabel = ''Please enter a table number''"

definition DuplicateLabel :: string where
  "DuplicateLabel = ''A table with this number already exists''"

text \<open>The step function from the seat count to the size of a new table.\<close>

definition tableSize :: "int \<Rightarrow> real \<times> real" where
  "tableSize seats =
     (if seats \<le> 2 then (60, 60)
      else if seats \<le> 4 then (80, 80)
      else if seats \<le> 6 then (120, 80)
      else if seats \<le> 8 then (160, 80)
      else (200, 80))"

text \<open>
  \<open>addTable\<close> returns the message it alerts, if any, and the next state. \<open>newId\<close> is the
  result of \<open>generateId()\<close>, and \<open>rnd\<close> the numbers \<open>Math.random\<close> returns to the search.
\<close>

definition addTable ::
  "string \<Rightarrow> (nat \<Rightarrow> real) \<Rightarrow> canvas_state \<Rightarrow> string option \<times> canvas_state" where
  "addTable newId rnd st =
     (if trim (tableNumber st) = [] then (Some MissingLabel, st)
      else if list_ex (\<lambda>t. t_number t = tableNumber st) (tables st)
      then (Some DuplicateLabel, st)
      else
        let newTable =
              \<lparr>t_id = newId, t_x = 0, t_y = 0,
               t_width = fst (tableSize (seatsForNewTable st)),
               t_height = snd (tableSize (seatsForNewTable st)),
               t_rotation = 0, t_seats = seatsForNewTable st,
               t_number = tableNumber st, t_isSelected = False\<rparr>;
            positionedTable =
              findNonOverlappingPosition (dimWidth st) (dimHeight st) (tables st) rnd
                newTable defaultMaxAttempts
        in (None, st\<lparr>tables := tables st @ [positionedTable], tableNumber := []\<rparr>))"

subsection \<open>handleDragEnd\<close>

text \<open>
  The dragged node gives its id and its position \<open>(nx, ny)\<close>. The result is the next
  state and the position of the node after the handler, which the handler sets back
  when it refuses the move.
\<close>

definition handleDragEnd ::
  "string \<Rightarrow> real \<Rightarrow> real \<Rightarrow> canvas_state \<Rightarrow> canvas_state \<times> (real \<times> real)" where
  "handleDragEnd nid nx ny st =
     (case find (\<lambda>t. t_id t = nid) (tables st) of
        None \<Rightarrow> (st, (nx, ny))
      | Some draggedTable \<Rightarrow>
          let newPosition = draggedTable\<lparr>t_x := nx, t_y := ny\<rparr>;
              wouldOverlap =
                list_ex (\<lambda>t. t_id t \<noteq> nid \<and> tablesOverlap newPosition t defaultBuffer)
                  (tables st)
          in if wouldOverlap
             then (st, (t_x draggedTable, t_y draggedTable))
             else (st\<lparr>tables := map (\<lambda>t. if t_id t = nid then newPosition else t)
                                    (tables st)\<rparr>,
                   (nx, ny)))"

section \<open>The percentage-coordinate editor (components Table and RestaurantFloorPlan)\<close>

subsection \<open>Data\<close>

datatype TableShape = Round | Rectangle | Square

datatype TableSize = Small | Medium | Large

text \<open>The interface TableData; the optional \<open>name\<close> is an option.\<close>

record TableData =
  td_id :: string
  td_xPercent :: real
  td_yPercent :: real
  td_seats :: int
  td_shape :: TableShape
  td_size :: TableSize
  td_rotation :: real
  td_name :: "string option"

record FloorData =
  fl_id :: string
  fl_name :: string
  fl_tables :: "TableData list"

subsection \<open>Seat markers of a round table\<close>

text \<open>The entry \<open>tableDimensions.round[size].radius\<close>.\<close>

fun roundRadius :: "TableSize \<Rightarrow> real" where
  "roundRadius Small = 25"
| "roundRadius Medium = 35"
| "roundRadius Large = 45"

definition scaleFactor :: "real \<Rightarrow> real \<Rightarrow> real" where
  "scaleFactor stageWidth stageHeight = min stageWidth stageHeight / 800"

definition scaledRadius :: "real \<Rightarrow> real \<Rightarrow> TableSize \<Rightarrow> real" where
  "scaledRadius stageWidth stageHeight sz =
     roundRadius sz * max (1 / 2) (scaleFactor stageWidth stageHeight)"

definition seatDistance :: "real \<Rightarrow> real \<Rightarrow> TableSize \<Rightarrow> real" where
  "seatDistance stageWidth stageHeight sz =
     scaledRadius stageWidth stageHeight sz + 10 * scaleFactor stageWidth stageHeight"

definition seatAngle :: "int \<Rightarrow> nat \<Rightarrow> real" where
  "seatAngle seats i = (real i * 2 * pi) / real_of_int seats"

text \<open>
  The centre of the \<open>i\<close>-th seat circle of a round table, relative to the centre of the
  table, and the list \<open>Array.from({ length: seats }).map\<close> builds: a negative length
  counts as zero.
\<close>

definition roundSeat :: "real \<Rightarrow> real \<Rightarrow> TableSize \<Rightarrow> int \<Rightarrow> nat \<Rightarrow> real \<times> real" where
  "roundSeat stageWidth stageHeight sz seats i =
     (seatDistance stageWidth stageHeight sz * cos (seatAngle seats i),
      seatDistance stageWidth stageHeight sz * sin (seatAngle seats i))"

definition roundSeats :: "real \<Rightarrow> real \<Rightarrow> TableSize \<Rightarrow> int \<Rightarrow> (real \<times> real) list" where
  "roundSeats stageWidth stageHeight sz seats =
     map (roundSeat stageWidth stageHeight sz seats) [0..<nat seats]"

subsection \<open>toPercent and fromPercent\<close>

definition toPercent :: "real \<Rightarrow> real \<Rightarrow> real" where
  "toPercent position dimension = (position / dimension) * 100"

definition fromPercent :: "real \<Rightarrow> real \<Rightarrow> real" where
  "fromPercent percent dimension = (percent * dimension) / 100"

subsection \<open>The state of RestaurantFloorPlan\<close>

record plan_state =
  stageWidth :: real
  stageHeight :: real
  aspectRatio :: real
  floors :: "FloorData list"
  currentFloorId :: string
  newFloorName :: string
  selectedTable :: "string option"
  newTableType :: TableShape
  newTableSize :: TableSize
  newTableSeats :: int
  newTableName :: string
  layoutName :: string

definition initialFloors :: "FloorData list" where
  "initialFloors =
     [\<lparr>fl_id = ''floor-1'', fl_name = ''Floor 1'',
       fl_tables =
         [\<lparr>td_id = ''1'', td_xPercent = 125 / 10, td_yPercent = 166 / 10, td_seats = 2,
           td_shape = Round, td_size = Small, td_rotation = 0, td_name = Some ''T1''\<rparr>,
          \<lparr>td_id = ''2'', td_xPercent = 3125 / 100, td_yPercent = 25, td_seats = 4,
           td_shape = Rectangle, td_size = Medium, td_rotation = 0, td_name = Some ''T2''\<rparr>,
          \<lparr>td_id = ''3'', td_xPercent = 50, td_yPercent = 333 / 10, td_seats = 6,
           td_shape = Square, td_size = Large, td_rotation = 0, td_name = Some ''T3''\<rparr>]\<rparr>]"

text \<open>The state after the first render, with the default props 800 and 600.\<close>

definition initialState :: plan_state where
  "initialState =
     \<lparr>stageWidth = 800, stageHeight = 600, aspectRatio = 800 / 600,
      floors = initialFloors, currentFloorId = ''floor-1'', newFloorName = [],
      selectedTable = None, newTableType = Round, newTableSize = Medium,
      newTableSeats = 4, newTableName = [], layoutName = []\<rparr>"

text \<open>\<open>floors.find(...) || floors[0]\<close>, undefined (\<open>None\<close>) when there is no floor.\<close>

definition currentFloor :: "plan_state \<Rightarrow> FloorData option" where
  "currentFloor st =
     (case find (\<lambda>fl. fl_id fl = currentFloorId st) (floors st) of
        Some fl \<Rightarrow> Some fl
      | None \<Rightarrow> (case floors st of [] \<Rightarrow> None | fl # _ \<Rightarrow> Some fl))"

text \<open>\<open>currentFloor?.tables || []\<close>, the constant \<open>tables\<close> of the component.\<close>

definition currentTables :: "plan_state \<Rightarrow> TableData list" where
  "currentTables st = (case currentFloor st of None \<Rightarrow> [] | Some fl \<Rightarrow> fl_tables fl)"

text \<open>A string or null in a condition: null and the empty string are falsy.\<close>

fun truthy :: "string option \<Rightarrow> bool" where
  "truthy None = False"
| "truthy (Some s) = (s \<noteq> [])"

text \<open>\<open>v || d\<close> for a string, null or undefined \<open>v\<close>.\<close>

definition orElse :: "string option \<Rightarrow> string \<Rightarrow> string" where
  "orElse v d = (if truthy v then the v else d)"

subsection \<open>Numbers in template strings\<close>

text \<open>The decimal digits of a natural number, as \<open>Date.now()\<close> prints in a string.\<close>

fun decimal :: "nat \<Rightarrow> string" where
  "decimal n =
     (if n < 10 then [char_of (48 + n)]
      else decimal (n div 10) @ [char_of (48 + n mod 10)])"

declare decimal.simps [simp del]

subsection \<open>What the store holds\<close>

text \<open>
  The handlers read \<open>localStorage.getItem("restaurantLayout")\<close> and pass it to
  \<open>JSON.parse\<close>. Both belong to the platform; the model takes their joint result,
  split by the tests the handlers make:
  \<^item> \<open>NoItem\<close>: the item is null or the empty string;
  \<^item> \<open>Unparseable\<close>: \<open>JSON.parse\<close> throws;
  \<^item> \<open>Parsed Falsy\<close>: the parsed value is falsy;
  \<^item> \<open>Parsed NoFloors\<close>: a truthy value whose \<open>floors\<close> is missing or falsy;
  \<^item> \<open>Parsed (Layout name fs)\<close>: a value whose \<open>floors\<close> is the array \<open>fs\<close> (any
    array is truthy, the empty one too) and whose \<open>name\<close> is a string or is missing.
\<close>

datatype parsed = Falsy | NoFloors | Layout "string option" "FloorData list"

datatype stored = NoItem | Unparseable | Parsed parsed

subsection \<open>The load effect on mount\<close>

definition loadOnMount :: "stored \<Rightarrow> plan_state \<Rightarrow> plan_state" where
  "loadOnMount savedLayout st =
     (case savedLayout of
        Parsed (Layout name fs) \<Rightarrow>
          (let st1 = st\<lparr>floors := fs\<rparr>;
               st2 = (case fs of [] \<Rightarrow> st1 | fl # _ \<Rightarrow> st1\<lparr>currentFloorId := fl_id fl\<rparr>)
           in st2\<lparr>layoutName := orElse name []\<rparr>)
      | _ \<Rightarrow> st)"

subsection \<open>Floor management\<close>

datatype js_error = TypeError

definition MissingName :: string where
  "MissingName = ''Please enter a floor name''"

definition LastFloor :: string where
  "LastFloor = ''You cannot delete the only floor''"

definition floorIdAt :: "nat \<Rightarrow> string" where
  "floorIdAt now = ''floor-'' @ decimal now"

text \<open>
  The handlers return the message they alert, if any, and the next state. \<open>now\<close> is the
  value of \<open>Date.now()\<close>.
\<close>

definition handleAddFloor :: "nat \<Rightarrow> plan_state \<Rightarrow> string option \<times> plan_state" where
  "handleAddFloor now st =
     (if trim (newFloorName st) = [] then (Some MissingName, st)
      else
        let newFloorId = floorIdAt now;
            newFloor = \<lparr>fl_id = newFloorId, fl_name = newFloorName st, fl_tables = []\<rparr>
        in (None, st\<lparr>floors := floors st @ [newFloor], currentFloorId := newFloorId,
                      newFloorName := []\<rparr>))"

definition handleSwitchFloor :: "string \<Rightarrow> plan_state \<Rightarrow> plan_state" where
  "handleSwitchFloor floorId st = st\<lparr>selectedTable := None, currentFloorId := floorId\<rparr>"

text \<open>
  \<open>confirmDelete\<close> is the answer of \<open>window.confirm\<close>. Reading \<open>updatedFloors[0].id\<close> of
  an empty array throws.
\<close>

definition handleDeleteFloor ::
  "string \<Rightarrow> bool \<Rightarrow> plan_state \<Rightarrow> js_error + string option \<times> plan_state" where
  "handleDeleteFloor floorId confirmDelete st =
     (if length (floors st) \<le> 1 then Inr (Some LastFloor, st)
      else if \<not> confirmDelete then Inr (None, st)
      else
        let updatedFloors = filter (\<lambda>fl. fl_id fl \<noteq> floorId) (floors st)
        in if floorId = currentFloorId st
           then (case updatedFloors of
                   [] \<Rightarrow> Inl TypeError
                 | fl # _ \<Rightarrow>
                     Inr (None, st\<lparr>floors := updatedFloors, currentFloorId := fl_id fl\<rparr>))
           else Inr (None, st\<lparr>floors := updatedFloors\<rparr>))"

subsection \<open>Table handlers\<close>

definition handleTableSelect :: "string \<Rightarrow> plan_state \<Rightarrow> plan_state" where
  "handleTableSelect i st =
     (let st1 = st\<lparr>selectedTable := (if Some i = selectedTable st then None else Some i)\<rparr>
      in if Some i \<noteq> selectedTable st
         then (case find (\<lambda>t. td_id t = i) (currentTables st) of
                 Some t \<Rightarrow> st1\<lparr>newTableName := orElse (td_name t) []\<rparr>
               | None \<Rightarrow> st1)
         else st1)"

definition handleTableDragEnd :: "string \<Rightarrow> real \<Rightarrow> real \<Rightarrow> plan_state \<Rightarrow> plan_state" where
  "handleTableDragEnd i px py st =
     st\<lparr>floors :=
          map (\<lambda>fl. if fl_id fl \<noteq> currentFloorId st then fl
                    else fl\<lparr>fl_tables :=
                           map (\<lambda>t. if td_id t = i
                                     then t\<lparr>td_xPercent := toPercent px (stageWidth st),
                                            td_yPercent := toPercent py (stageHeight st)\<rparr>
                                     else t)
                               (fl_tables fl)\<rparr>)
              (floors st)\<rparr>"

definition handleTableRotate :: "string \<Rightarrow> real \<Rightarrow> plan_state \<Rightarrow> plan_state" where
  "handleTableRotate i rotation st =
     st\<lparr>floors :=
          map (\<lambda>fl. if fl_id fl \<noteq> currentFloorId st then fl
                    else fl\<lparr>fl_tables :=
                           map (\<lambda>t. if td_id t = i then t\<lparr>td_rotation := rotation\<rparr> else t)
                               (fl_tables fl)\<rparr>)
              (floors st)\<rparr>"

definition handleAddTable :: "nat \<Rightarrow> plan_state \<Rightarrow> plan_state" where
  "handleAddTable now st =
     (let tableName =
            (if newTableName st \<noteq> [] then newTableName st
             else ''T'' @ decimal (length (currentTables st) + 1));
          newTable =
            \<lparr>td_id = decimal now, td_xPercent = 50, td_yPercent = 50,
             td_seats = newTableSeats st, td_shape = newTableType st,
             td_size = newTableSize st, td_rotation = 0, td_name = Some tableName\<rparr>
      in st\<lparr>floors :=
              map (\<lambda>fl. if fl_id fl \<noteq> currentFloorId st then fl
                        else fl\<lparr>fl_tables := fl_tables fl @ [newTable]\<rparr>)
                  (floors st),
            selectedTable := Some (td_id newTable),
            newTableName := []\<rparr>)"

definition handleRemoveTable :: "plan_state \<Rightarrow> plan_state" where
  "handleRemoveTable st =
     (if truthy (selectedTable st)
      then st\<lparr>floors :=
                map (\<lambda>fl. if fl_id fl \<noteq> currentFloorId st then fl
                          else fl\<lparr>fl_tables :=
                                 filter (\<lambda>t. Some (td_id t) \<noteq> selectedTable st)
                                   (fl_tables fl)\<rparr>)
                    (floors st),
              selectedTable := None\<rparr>
      else st)"

definition handleUpdateTableSeats :: "int \<Rightarrow> plan_state \<Rightarrow> plan_state" where
  "handleUpdateTableSeats seats st =
     (if truthy (selectedTable st)
      then st\<lparr>floors :=
                map (\<lambda>fl. if fl_id fl \<noteq> currentFloorId st then fl
                          else fl\<lparr>fl_tables :=
                                 map (\<lambda>t. if Some (td_id t) = selectedTable st
                                           then t\<lparr>td_seats := seats\<rparr> else t)
                                     (fl_tables fl)\<rparr>)
                    (floors st)\<rparr>
      else st)"

definition handleUpdateTableName :: "string \<Rightarrow> plan_state \<Rightarrow> plan_state" where
  "handleUpdateTableName name st =
     (if truthy (selectedTable st)
      then st\<lparr>floors :=
                map (\<lambda>fl. if fl_id fl \<noteq> currentFloorId st then fl
                          else fl\<lparr>fl_tables :=
                                 map (\<lambda>t. if Some (td_id t) = selectedTable st
                                           then t\<lparr>td_name := Some name\<rparr> else t)
                                     (fl_tables fl)\<rparr>)
                    (floors st)\<rparr>
      else st)"

subsection \<open>Saving and loading\<close>

definition quoted :: "string \<Rightarrow> string" where
  "quoted s = [CHR 0x22] @ s @ [CHR 0x22]"

text \<open>
  \<open>handleSaveLayout\<close> returns its message and what a later \<open>getItem\<close> and
  \<open>JSON.parse\<close> give back for the item it writes, if it writes one. It changes no
  state of the component.
\<close>

definition handleSaveLayout :: "plan_state \<Rightarrow> string \<times> stored option" where
  "handleSaveLayout st =
     (if trim (layoutName st) = [] then (''Please enter a layout name'', None)
      else (''Layout '' @ quoted (layoutName st) @ '' saved successfully!'',
            Some (Parsed (Layout (Some (layoutName st)) (floors st)))))"

definition handleLoadLayout :: "stored \<Rightarrow> plan_state \<Rightarrow> string \<times> plan_state" where
  "handleLoadLayout savedLayout st =
     (case savedLayout of
        NoItem \<Rightarrow> (''No saved layout found'', st)
      | Unparseable \<Rightarrow> (''Error loading layout'', st)
      | Parsed (Layout name fs) \<Rightarrow>
          (let st1 = st\<lparr>floors := fs\<rparr>;
               st2 = (case fs of [] \<Rightarrow> st1 | fl # _ \<Rightarrow> st1\<lparr>currentFloorId := fl_id fl\<rparr>)
           in (''Layout '' @ quoted (orElse name ''Unnamed'') @ '' loaded successfully!'',
               st2\<lparr>layoutName := orElse name [], selectedTable := None\<rparr>))
      | Parsed _ \<Rightarrow> (''Error: Invalid layout data'', st))"

subsection \<open>The commands of the editor\<close>

text \<open>
  One constructor for each handler a user event runs, with what the event and the
  platform give it: the clock for \<open>Date.now()\<close>, the answer of the confirmation, the
  content of the store, the width of the container, the value of an input field.
\<close>

datatype command =
    AddFloor nat
  | SwitchFloor string
  | DeleteFloor string bool
  | TableSelect string
  | TableDragEnd string real real
  | TableRotate string real
  | AddTable nat
  | RemoveTable
  | UpdateTableSeats int
  | UpdateTableName string
  | SaveLayout
  | LoadLayout stored
  | Deselect
  | CheckSize real
  | SetNewFloorName string
  | SetNewTableType TableShape
  | SetNewTableSize TableSize
  | SetNewTableSeats int
  | SetNewTableName string
  | SetLayoutName string

fun step :: "command \<Rightarrow> plan_state \<Rightarrow> js_error + plan_state" where
  "step (AddFloor now) st = Inr (snd (handleAddFloor now st))"
| "step (SwitchFloor floorId) st = Inr (handleSwitchFloor floorId st)"
| "step (DeleteFloor floorId confirmDelete) st =
     (case handleDeleteFloor floorId confirmDelete st of
        Inl e \<Rightarrow> Inl e
      | Inr (msg, st') \<Rightarrow> Inr st')"
| "step (TableSelect i) st = Inr (handleTableSelect i st)"
| "step (TableDragEnd i px py) st = Inr (handleTableDragEnd i px py st)"
| "step (TableRotate i rotation) st = Inr (handleTableRotate i rotation st)"
| "step (AddTable now) st = Inr (handleAddTable now st)"
| "step RemoveTable st = Inr (handleRemoveTable st)"
| "step (UpdateTableSeats seats) st = Inr (handleUpdateTableSeats seats st)"
| "step (UpdateTableName name) st = Inr (handleUpdateTableName name st)"
| "step SaveLayout st = Inr st"
| "step (LoadLayout savedLayout) st = Inr (snd (handleLoadLayout savedLayout st))"
| "step Deselect st = Inr (st\<lparr>selectedTable := None\<rparr>)"
| "step (CheckSize containerWidth) st =
     Inr (st\<lparr>stageWidth := containerWidth,
              stageHeight := containerWidth / aspectRatio st\<rparr>)"
| "step (SetNewFloorName v) st = Inr (st\<lparr>newFloorName := v\<rparr>)"
| "step (SetNewTableType v) st = Inr (st\<lparr>newTableType := v\<rparr>)"
| "step (SetNewTableSize v) st = Inr (st\<lparr>newTableSize := v\<rparr>)"
| "step (SetNewTableSeats v) st = Inr (st\<lparr>newTableSeats := v\<rparr>)"
| "step (SetNewTableName v) st = Inr (st\<lparr>newTableName := v\<rparr>)"
| "step (SetLayoutName v) st = Inr (st\<lparr>layoutName := v\<rparr>)"

text \<open>
  The conditions on what the platform gives a command: the id made for a new floor is
  not the id of a floor that exists, and a layout that is loaded has at least one floor
  and no two floors with the same id.
\<close>

fun admissible :: "command \<Rightarrow> plan_state \<Rightarrow> bool" where
  "admissible (AddFloor now) st = (floorIdAt now \<notin> set (map fl_id (floors st)))"
| "admissible (LoadLayout (Parsed (Layout name fs))) st =
     (fs \<noteq> [] \<and> distinct (map fl_id fs))"
| "admissible c st = True"

inductive reachable :: "plan_state \<Rightarrow> bool" where
  reachable_init: "reachable initialState"
| reachable_step: "reachable st \<Longrightarrow> admissible c st \<Longrightarrow> step c st = Inr st' \<Longrightarrow> reachable st'"

section \<open>Sample data\<close>

text \<open>A source of numbers that gives the same number at every call.\<close>

definition alwaysDraw :: "real \<Rightarrow> nat \<Rightarrow> real" where
  "alwaysDraw r k = r"

definition sampleTable :: table where
  "sampleTable =
     \<lparr>t_id = ''table-a'', t_x = 0, t_y = 0, t_width = 60, t_height = 60, t_rotation = 0,
      t_seats = 2, t_number = ''1'', t_isSelected = False\<rparr>"

definition sampleCandidate :: table where
  "sampleCandidate =
     \<lparr>t_id = ''table-b'', t_x = 0, t_y = 0, t_width = 80, t_height = 80, t_rotation = 0,
      t_seats = 4, t_number = ''2'', t_isSelected = False\<rparr>"

definition sampleCanvas :: "string \<Rightarrow> canvas_state" where
  "sampleCanvas number =
     \<lparr>dimWidth = 800, dimHeight = 600, tables = [sampleTable], selectedTableId = None,
      seatsForNewTable = 4, tableNumber = number\<rparr>"

definition twoTables :: canvas_state where
  "twoTables =
     \<lparr>dimWidth = 800, dimHeight = 600,
      tables = [sampleTable, sampleCandidate\<lparr>t_x := 300, t_y := 200\<rparr>],
      selectedTableId = None, seatsForNewTable = 4, tableNumber = []\<rparr>"

text \<open>The state after typing a floor name and adding the floor at clock 5.\<close>

definition twoFloors :: plan_state where
  "twoFloors = snd (handleAddFloor 5 (initialState\<lparr>newFloorName := ''Terrace''\<rparr>))"

text \<open>What a floor tab shows: the name of the floor and the number of its tables.\<close>

definition floorTabs :: "plan_state \<Rightarrow> (string \<times> nat) list" where
  "floorTabs st = map (\<lambda>fl. (fl_name fl, length (fl_tables fl))) (floors st)"

text \<open>The distance of a point from the centre of its table.\<close>

definition distanceFromCentre :: "real \<times> real \<Rightarrow> real" where
  "distanceFromCentre p = sqrt ((fst p)\<^sup>2 + (snd p)\<^sup>2)"

section \<open>Properties of the fixed-coordinate editor\<close>

subsection \<open>Auxiliary facts\<close>

lemma dropWhile_all_iff: "(\<forall>x\<in>set (dropWhile P xs). P x) \<longleftrightarrow> (\<forall>x\<in>set xs. P x)"
  by (induction xs) auto

lemma trim_empty_iff: "trim s = [] \<longleftrightarrow> (\<forall>c\<in>set s. isWhiteSpace c)"
  by (simp add: trim_def dropWhile_eq_Nil_conv dropWhile_all_iff)

lemma placementLoop_draw:
  "\<exists>k. attempts \<le> k \<and> (int k < maxAttempts \<or> k = attempts) \<and>
       placementLoop w h ts rnd maxAttempts position attempts =
         position\<lparr>t_x := rnd (2 * k) * (w - t_width position - 50) + 50,
                  t_y := rnd (2 * k + 1) * (h - t_height position - 50) + 50\<rparr>"
proof (induction w h ts rnd maxAttempts position attempts rule: placementLoop.induct)
  case (1 w h ts rnd maxAttempts position attempts)
  define position' where "position' = position
            \<lparr>t_x := rnd (2 * attempts) * (w - t_width position - 50) + 50,
             t_y := rnd (2 * attempts + 1) * (h - t_height position - 50) + 50\<rparr>"
  define overlapping where
    "overlapping = list_ex (\<lambda>t. tablesOverlap position' t defaultBuffer) ts"
  show ?case
  proof (cases "overlapping \<and> int (attempts + 1) < maxAttempts")
    case True
    then have eq: "placementLoop w h ts rnd maxAttempts position attempts =
        placementLoop w h ts rnd maxAttempts position' (attempts + 1)"
      by (subst placementLoop.simps) (simp add: position'_def overlapping_def Let_def)
    from "1.IH"[OF position'_def overlapping_def refl] True
    obtain k where k: "attempts + 1 \<le> k" "int k < maxAttempts \<or> k = attempts + 1"
      "placementLoop w h ts rnd maxAttempts position' (attempts + 1) =
         position'\<lparr>t_x := rnd (2 * k) * (w - t_width position' - 50) + 50,
                  t_y := rnd (2 * k + 1) * (h - t_height position' - 50) + 50\<rparr>"
      by blast
    show ?thesis
      apply (rule exI[of _ k])
      using k True by (auto simp: eq position'_def)
  next
    case False
    then have "placementLoop w h ts rnd maxAttempts position attempts = position'"
      by (subst placementLoop.simps) (auto simp add: position'_def overlapping_def Let_def)
    then show ?thesis
      by (intro exI[of _ attempts]) (simp add: position'_def)
  qed
qed

lemma findNonOverlappingPosition_update:
  "\<exists>px py. findNonOverlappingPosition w h ts rnd c m = c\<lparr>t_x := px, t_y := py\<rparr>"
proof (cases "ts = []")
  case True
  have "c = c\<lparr>t_x := t_x c, t_y := t_y c\<rparr>" by simp
  then have "findNonOverlappingPosition w h ts rnd c m = c\<lparr>t_x := t_x c, t_y := t_y c\<rparr>"
    using True by (simp add: findNonOverlappingPosition_def)
  then show ?thesis by blast
next
  case False
  then show ?thesis
    using placementLoop_draw[of 0 m w h ts rnd c]
    by (auto simp: findNonOverlappingPosition_def)
qed

lemma draw_in_range:
  fixes r d :: real
  assumes "0 \<le> r" "r < 1" "50 < d"
  shows "50 \<le> r * (d - 50) + 50 \<and> r * (d - 50) + 50 < d"
proof -
  have pos: "0 < d - 50" using assms by simp
  have "0 \<le> r * (d - 50)" using assms pos by simp
  moreover have "r * (d - 50) < 1 * (d - 50)"
    using assms pos by (intro mult_strict_right_mono) auto
  ultimately show ?thesis by simp
qed

text \<open>
  Claim C1, as the code has it. With no table placed, \<open>findNonOverlappingPosition\<close>
  returns the candidate as it is, at the position it came with. With a table placed,
  every number of the source in \<open>[0, 1)\<close>, and a canvas more than 50 wider and higher than
  the candidate, the table returned is the candidate at one of the draws
  \<open>(rnd (2k) * (w - width - 50) + 50, rnd (2k+1) * (h - height - 50) + 50)\<close>, and its
  position lies in \<open>[50, w - width) \<times> [50, h - height)\<close>.
\<close>

theorem findNonOverlappingPosition_range:
  "(ts = [] \<longrightarrow> findNonOverlappingPosition w h ts rnd c m = c) \<and>
   (ts \<noteq> [] \<and> (\<forall>k. 0 \<le> rnd k \<and> rnd k < 1) \<and> 50 < w - t_width c \<and> 50 < h - t_height c \<longrightarrow>
      (\<exists>k. findNonOverlappingPosition w h ts rnd c m =
             c\<lparr>t_x := rnd (2 * k) * (w - t_width c - 50) + 50,
               t_y := rnd (2 * k + 1) * (h - t_height c - 50) + 50\<rparr>) \<and>
      50 \<le> t_x (findNonOverlappingPosition w h ts rnd c m) \<and>
      t_x (findNonOverlappingPosition w h ts rnd c m) < w - t_width c \<and>
      50 \<le> t_y (findNonOverlappingPosition w h ts rnd c m) \<and>
      t_y (findNonOverlappingPosition w h ts rnd c m) < h - t_height c)"
proof (intro conjI impI)
  assume "ts = []"
  then show "findNonOverlappingPosition w h ts rnd c m = c"
    by (simp add: findNonOverlappingPosition_def)
next
  assume a: "ts \<noteq> [] \<and> (\<forall>k. 0 \<le> rnd k \<and> rnd k < 1) \<and> 50 < w - t_width c \<and> 50 < h - t_height c"
  obtain k where k: "placementLoop w h ts rnd m c 0 =
         c\<lparr>t_x := rnd (2 * k) * (w - t_width c - 50) + 50,
           t_y := rnd (2 * k + 1) * (h - t_height c - 50) + 50\<rparr>"
    using placementLoop_draw[of 0 m w h ts rnd c] by blast
  have eq: "findNonOverlappingPosition w h ts rnd c m =
         c\<lparr>t_x := rnd (2 * k) * (w - t_width c - 50) + 50,
           t_y := rnd (2 * k + 1) * (h - t_height c - 50) + 50\<rparr>"
    using a k by (simp add: findNonOverlappingPosition_def)
  show "\<exists>k. findNonOverlappingPosition w h ts rnd c m =
             c\<lparr>t_x := rnd (2 * k) * (w - t_width c - 50) + 50,
               t_y := rnd (2 * k + 1) * (h - t_height c - 50) + 50\<rparr>"
    using eq by blast
  have dx: "50 \<le> rnd (2 * k) * (w - t_width c - 50) + 50 \<and>
            rnd (2 * k) * (w - t_width c - 50) + 50 < w - t_width c"
    using a by (intro draw_in_range) auto
  have dy: "50 \<le> rnd (2 * k + 1) * (h - t_height c - 50) + 50 \<and>
            rnd (2 * k + 1) * (h - t_height c - 50) + 50 < h - t_height c"
    using a by (intro draw_in_range) auto
  show "50 \<le> t_x (findNonOverlappingPosition w h ts rnd c m)" using dx by (simp add: eq)
  show "t_x (findNonOverlappingPosition w h ts rnd c m) < w - t_width c" using dx by (simp add: eq)
  show "50 \<le> t_y (findNonOverlappingPosition w h ts rnd c m)" using dy by (simp add: eq)
  show "t_y (findNonOverlappingPosition w h ts rnd c m) < h - t_height c" using dy by (simp add: eq)
qed

text \<open>The same on a canvas of 800 by 600, with the source that always gives 1/2.\<close>

theorem findNonOverlappingPosition_range_witness:
  "findNonOverlappingPosition 800 600 [] (alwaysDraw (1 / 2)) sampleCandidate defaultMaxAttempts
     = sampleCandidate \<and>
   50 \<le> t_x (findNonOverlappingPosition 800 600 [sampleTable] (alwaysDraw (1 / 2))
             sampleCandidate defaultMaxAttempts) \<and>
   t_x (findNonOverlappingPosition 800 600 [sampleTable] (alwaysDraw (1 / 2))
             sampleCandidate defaultMaxAttempts) < 800 - 80 \<and>
   50 \<le> t_y (findNonOverlappingPosition 800 600 [sampleTable] (alwaysDraw (1 / 2))
             sampleCandidate defaultMaxAttempts) \<and>
   t_y (findNonOverlappingPosition 800 600 [sampleTable] (alwaysDraw (1 / 2))
             sampleCandidate defaultMaxAttempts) < 600 - 80"
  using findNonOverlappingPosition_range
          [where ts = "[]" and w = 800 and h = 600 and rnd = "alwaysDraw (1 / 2)"
             and c = sampleCandidate and m = defaultMaxAttempts]
        findNonOverlappingPosition_range
          [where ts = "[sampleTable]" and w = 800 and h = 600 and rnd = "alwaysDraw (1 / 2)"
             and c = sampleCandidate and m = defaultMaxAttempts]
  by (simp add: alwaysDraw_def sampleCandidate_def)

text \<open>
  The box \<open>[50, w - width - 50) \<times> [50, h - height - 50)\<close> does not hold the result: on a
  canvas of 800 by 600 the draw 19/20 puts a table of width 80 at \<open>x = 686.5\<close>, beyond
  \<open>670\<close>, and with no table placed the candidate stays at \<open>x = 0\<close>, below 50.
\<close>

theorem findNonOverlappingPosition_range_counterexample:
  "\<not> (t_x (findNonOverlappingPosition 800 600 [sampleTable] (alwaysDraw (19 / 20))
             sampleCandidate defaultMaxAttempts)
        < 800 - t_width sampleCandidate - 50) \<and>
   \<not> (50 \<le> t_x (findNonOverlappingPosition 800 600 [] (alwaysDraw (19 / 20))
             sampleCandidate defaultMaxAttempts))"
  by (simp add: findNonOverlappingPosition_def placementLoop.simps alwaysDraw_def
        sampleCandidate_def sampleTable_def tablesOverlap_def defaultBuffer_def
        defaultMaxAttempts_def)

text \<open>
  Claim C2. \<open>tablesOverlap a b buffer\<close> holds exactly when none of the four separations
  holds: \<open>a\<close> with the buffer ends left of \<open>b\<close>, \<open>a\<close> starts right of \<open>b\<close> with the buffer,
  and the same two from top to bottom. Said without the negation, the boxes with the
  buffer meet on both axes. The rotation of neither table plays a part.
\<close>

theorem tablesOverlap_separating_axis:
  "(tablesOverlap a b buffer \<longleftrightarrow>
      \<not> (t_x a + t_width a + buffer < t_x b \<or> t_x a > t_x b + t_width b + buffer \<or>
         t_y a + t_height a + buffer < t_y b \<or> t_y a > t_y b + t_height b + buffer)) \<and>
   (tablesOverlap a b buffer \<longleftrightarrow>
      t_x b \<le> t_x a + t_width a + buffer \<and> t_x a \<le> t_x b + t_width b + buffer \<and>
      t_y b \<le> t_y a + t_height a + buffer \<and> t_y a \<le> t_y b + t_height b + buffer) \<and>
   tablesOverlap (a\<lparr>t_rotation := ra\<rparr>) (b\<lparr>t_rotation := rb\<rparr>) buffer = tablesOverlap a b buffer"
  by (auto simp: tablesOverlap_def)

text \<open>Claim C7. The overlap test gives the same answer when its two tables are swapped.\<close>

theorem tablesOverlap_symmetric:
  "tablesOverlap a b buffer = tablesOverlap b a buffer"
  by (auto simp: tablesOverlap_def)

text \<open>
  Claim C10. The table \<open>findNonOverlappingPosition\<close> returns is the candidate with new
  \<open>x\<close> and \<open>y\<close> at most: id, width, height, rotation, seats, number and isSelected are
  the candidate's.
\<close>

theorem findNonOverlappingPosition_frame:
  "(\<exists>px py. findNonOverlappingPosition w h ts rnd c m = c\<lparr>t_x := px, t_y := py\<rparr>) \<and>
   t_id (findNonOverlappingPosition w h ts rnd c m) = t_id c \<and>
   t_width (findNonOverlappingPosition w h ts rnd c m) = t_width c \<and>
   t_height (findNonOverlappingPosition w h ts rnd c m) = t_height c \<and>
   t_rotation (findNonOverlappingPosition w h ts rnd c m) = t_rotation c \<and>
   t_seats (findNonOverlappingPosition w h ts rnd c m) = t_seats c \<and>
   t_number (findNonOverlappingPosition w h ts rnd c m) = t_number c \<and>
   t_isSelected (findNonOverlappingPosition w h ts rnd c m) = t_isSelected c"
proof -
  obtain px py where "findNonOverlappingPosition w h ts rnd c m = c\<lparr>t_x := px, t_y := py\<rparr>"
    using findNonOverlappingPosition_update by blast
  then show ?thesis by auto
qed

text \<open>
  Claim C4. When the table number is empty or holds white space only, \<open>addTable\<close>
  alerts \<open>MissingLabel\<close>; otherwise, when a table of the collection has the same number,
  it alerts \<open>DuplicateLabel\<close>; in both cases the state, and so the collection, is the one
  it was. Otherwise it alerts nothing and appends exactly one table, which carries the
  new id, the number, the seat count and the size that goes with the seat count.
\<close>

theorem addTable_rejects_or_appends:
  "((\<forall>ch\<in>set (tableNumber st). isWhiteSpace ch) \<longrightarrow>
      addTable newId rnd st = (Some MissingLabel, st)) \<and>
   (\<not> (\<forall>ch\<in>set (tableNumber st). isWhiteSpace ch) \<and>
    (\<exists>t\<in>set (tables st). t_number t = tableNumber st) \<longrightarrow>
      addTable newId rnd st = (Some DuplicateLabel, st)) \<and>
   (\<not> (\<forall>ch\<in>set (tableNumber st). isWhiteSpace ch) \<and>
    \<not> (\<exists>t\<in>set (tables st). t_number t = tableNumber st) \<longrightarrow>
      (\<exists>t. addTable newId rnd st = (None, st\<lparr>tables := tables st @ [t], tableNumber := []\<rparr>) \<and>
           t_id t = newId \<and> t_number t = tableNumber st \<and> t_seats t = seatsForNewTable st \<and>
           (t_width t, t_height t) = tableSize (seatsForNewTable st)))"
proof (intro conjI impI)
  assume "\<forall>ch\<in>set (tableNumber st). isWhiteSpace ch"
  then show "addTable newId rnd st = (Some MissingLabel, st)"
    by (simp add: addTable_def trim_empty_iff)
next
  assume "\<not> (\<forall>ch\<in>set (tableNumber st). isWhiteSpace ch) \<and>
    (\<exists>t\<in>set (tables st). t_number t = tableNumber st)"
  then show "addTable newId rnd st = (Some DuplicateLabel, st)"
    by (auto simp: addTable_def trim_empty_iff list_ex_iff)
next
  assume a: "\<not> (\<forall>ch\<in>set (tableNumber st). isWhiteSpace ch) \<and>
    \<not> (\<exists>t\<in>set (tables st). t_number t = tableNumber st)"
  define newTable where "newTable =
              \<lparr>t_id = newId, t_x = 0, t_y = 0,
               t_width = fst (tableSize (seatsForNewTable st)),
               t_height = snd (tableSize (seatsForNewTable st)),
               t_rotation = 0, t_seats = seatsForNewTable st,
               t_number = tableNumber st, t_isSelected = False\<rparr>"
  define t where "t = findNonOverlappingPosition (dimWidth st) (dimHeight st) (tables st) rnd
                newTable defaultMaxAttempts"
  obtain px py where "t = newTable\<lparr>t_x := px, t_y := py\<rparr>"
    unfolding t_def using findNonOverlappingPosition_update by blast
  then have fr: "t_id t = t_id newTable" "t_number t = t_number newTable"
    "t_seats t = t_seats newTable" "t_width t = t_width newTable" "t_height t = t_height newTable"
    by simp_all
  have "addTable newId rnd st = (None, st\<lparr>tables := tables st @ [t], tableNumber := []\<rparr>)"
    using a by (auto simp: addTable_def trim_empty_iff list_ex_iff Let_def t_def newTable_def)
  moreover have "t_id t = newId \<and> t_number t = tableNumber st \<and> t_seats t = seatsForNewTable st \<and>
           (t_width t, t_height t) = tableSize (seatsForNewTable st)"
    using fr by (simp add: newTable_def)
  ultimately show "\<exists>t. addTable newId rnd st = (None, st\<lparr>tables := tables st @ [t], tableNumber := []\<rparr>) \<and>
           t_id t = newId \<and> t_number t = tableNumber st \<and> t_seats t = seatsForNewTable st \<and>
           (t_width t, t_height t) = tableSize (seatsForNewTable st)"
    by blast
qed

text \<open>The three cases on a canvas that holds one table, numbered 1.\<close>

theorem addTable_rejects_or_appends_witness:
  "addTable ''table-c'' (alwaysDraw (1 / 2)) (sampleCanvas ''  '')
     = (Some MissingLabel, sampleCanvas ''  '') \<and>
   addTable ''table-c'' (alwaysDraw (1 / 2)) (sampleCanvas ''1'')
     = (Some DuplicateLabel, sampleCanvas ''1'') \<and>
   length (tables (snd (addTable ''table-c'' (alwaysDraw (1 / 2)) (sampleCanvas ''7'')))) = 2 \<and>
   take 1 (tables (snd (addTable ''table-c'' (alwaysDraw (1 / 2)) (sampleCanvas ''7''))))
     = [sampleTable]"
  using addTable_rejects_or_appends
          [where st = "sampleCanvas ''  ''" and newId = "''table-c''" and rnd = "alwaysDraw (1 / 2)"]
        addTable_rejects_or_appends
          [where st = "sampleCanvas ''1''" and newId = "''table-c''" and rnd = "alwaysDraw (1 / 2)"]
        addTable_rejects_or_appends
          [where st = "sampleCanvas ''7''" and newId = "''table-c''" and rnd = "alwaysDraw (1 / 2)"]
  by (auto simp: sampleCanvas_def sampleTable_def isWhiteSpace_def)

lemma find_distinct_nth:
  assumes "distinct (map f xs)" "i < length xs"
  shows "find (\<lambda>x. f x = f (xs ! i)) xs = Some (xs ! i)"
  using assms
proof (induction xs arbitrary: i)
  case Nil
  then show ?case by simp
next
  case (Cons a xs)
  show ?case
  proof (cases i)
    case 0
    then show ?thesis by simp
  next
    case (Suc j)
    then have "f (xs ! j) \<in> f ` set xs" using Cons.prems by auto
    then have "f a \<noteq> f (xs ! j)" using Cons.prems by auto
    then show ?thesis using Cons Suc by simp
  qed
qed

lemma map_distinct_update:
  assumes "distinct (map f xs)" "i < length xs"
  shows "map (\<lambda>x. if f x = f (xs ! i) then v else x) xs = xs[i := v]"
proof (rule nth_equalityI)
  show "length (map (\<lambda>x. if f x = f (xs ! i) then v else x) xs) = length (xs[i := v])"
    by simp
next
  fix j assume j: "j < length (map (\<lambda>x. if f x = f (xs ! i) then v else x) xs)"
  then have jl: "j < length xs" by simp
  have "f (xs ! j) = f (xs ! i) \<longleftrightarrow> j = i"
    using assms jl by (auto simp: distinct_conv_nth)
  then show "map (\<lambda>x. if f x = f (xs ! i) then v else x) xs ! j = xs[i := v] ! j"
    using jl assms by (auto simp: nth_list_update)
qed

lemma ex_other_iff:
  assumes "distinct (map f xs)" "i < length xs"
  shows "(\<exists>x\<in>set xs. f x \<noteq> f (xs ! i) \<and> P x) \<longleftrightarrow> (\<exists>j<length xs. j \<noteq> i \<and> P (xs ! j))"
proof
  assume "\<exists>x\<in>set xs. f x \<noteq> f (xs ! i) \<and> P x"
  then obtain x where x: "x \<in> set xs" "f x \<noteq> f (xs ! i)" "P x" by blast
  then obtain j where "j < length xs" "xs ! j = x" by (auto simp: in_set_conv_nth)
  then show "\<exists>j<length xs. j \<noteq> i \<and> P (xs ! j)" using x by auto
next
  assume "\<exists>j<length xs. j \<noteq> i \<and> P (xs ! j)"
  then obtain j where j: "j < length xs" "j \<noteq> i" "P (xs ! j)" by blast
  then have "f (xs ! j) \<noteq> f (xs ! i)"
    using assms by (auto simp: distinct_conv_nth)
  then show "\<exists>x\<in>set xs. f x \<noteq> f (xs ! i) \<and> P x" using j by auto
qed

text \<open>
  Claim C6. In a collection with pairwise distinct ids, let the node of the table at
  index \<open>i\<close> be dropped at \<open>(nx, ny)\<close>. If that table, moved there, overlaps a table at
  another index, the state stays as it was and the node is set back to the stored
  position. Otherwise the collection changes at index \<open>i\<close> only, where the table gets the
  new \<open>x\<close> and \<open>y\<close>.
\<close>

theorem handleDragEnd_rejects_or_commits:
  assumes "distinct (map t_id (tables st))" and "i < length (tables st)"
  shows
    "((\<exists>j<length (tables st). j \<noteq> i \<and>
         tablesOverlap ((tables st ! i)\<lparr>t_x := nx, t_y := ny\<rparr>) (tables st ! j) defaultBuffer) \<longrightarrow>
        handleDragEnd (t_id (tables st ! i)) nx ny st
          = (st, (t_x (tables st ! i), t_y (tables st ! i)))) \<and>
     (\<not> (\<exists>j<length (tables st). j \<noteq> i \<and>
         tablesOverlap ((tables st ! i)\<lparr>t_x := nx, t_y := ny\<rparr>) (tables st ! j) defaultBuffer) \<longrightarrow>
        handleDragEnd (t_id (tables st ! i)) nx ny st
          = (st\<lparr>tables := (tables st)[i := (tables st ! i)\<lparr>t_x := nx, t_y := ny\<rparr>]\<rparr>, (nx, ny)))"
proof -
  let ?t = "tables st ! i"
  let ?p = "?t\<lparr>t_x := nx, t_y := ny\<rparr>"
  have f: "find (\<lambda>t. t_id t = t_id ?t) (tables st) = Some ?t"
    using assms by (rule find_distinct_nth)
  have ex: "list_ex (\<lambda>t. t_id t \<noteq> t_id ?t \<and> tablesOverlap ?p t defaultBuffer) (tables st)
      \<longleftrightarrow> (\<exists>j<length (tables st). j \<noteq> i \<and> tablesOverlap ?p (tables st ! j) defaultBuffer)"
    unfolding list_ex_iff using assms by (rule ex_other_iff)
  have m: "map (\<lambda>t. if t_id t = t_id ?t then ?p else t) (tables st) = (tables st)[i := ?p]"
    using assms by (rule map_distinct_update)
  show ?thesis
  proof (cases "\<exists>j<length (tables st). j \<noteq> i \<and>
         tablesOverlap ?p (tables st ! j) defaultBuffer")
    case True
    then have "list_ex (\<lambda>t. t_id t \<noteq> t_id ?t \<and> tablesOverlap ?p t defaultBuffer) (tables st)"
      using ex by blast
    then have "handleDragEnd (t_id ?t) nx ny st = (st, (t_x ?t, t_y ?t))"
      by (simp add: handleDragEnd_def f Let_def)
    then show ?thesis using True by blast
  next
    case False
    then have "\<not> list_ex (\<lambda>t. t_id t \<noteq> t_id ?t \<and> tablesOverlap ?p t defaultBuffer) (tables st)"
      using ex by blast
    then have "handleDragEnd (t_id ?t) nx ny st = (st\<lparr>tables := (tables st)[i := ?p]\<rparr>, (nx, ny))"
      by (simp add: handleDragEnd_def f m Let_def)
    then show ?thesis using False by blast
  qed
qed

text \<open>Dropping the second of two tables onto the first, and onto free ground.\<close>

theorem handleDragEnd_rejects_or_commits_witness:
  "handleDragEnd ''table-b'' 30 30 twoTables = (twoTables, (300, 200)) \<and>
   handleDragEnd ''table-b'' 100 100 twoTables
     = (twoTables\<lparr>tables := [sampleTable, sampleCandidate\<lparr>t_x := 100, t_y := 100\<rparr>]\<rparr>, (100, 100))"
proof -
  have d: "distinct (map t_id (tables twoTables))"
    by (simp add: twoTables_def sampleTable_def sampleCandidate_def)
  have l: "1 < length (tables twoTables)"
    by (simp add: twoTables_def)
  have o1: "\<exists>j<length (tables twoTables). j \<noteq> 1 \<and>
         tablesOverlap ((tables twoTables ! 1)\<lparr>t_x := 30, t_y := 30\<rparr>) (tables twoTables ! j)
           defaultBuffer"
    by (simp add: twoTables_def sampleTable_def sampleCandidate_def tablesOverlap_def
          defaultBuffer_def Ex_less_Suc)
  have o2: "\<not> (\<exists>j<length (tables twoTables). j \<noteq> 1 \<and>
         tablesOverlap ((tables twoTables ! 1)\<lparr>t_x := 100, t_y := 100\<rparr>) (tables twoTables ! j)
           defaultBuffer)"
    by (simp add: twoTables_def sampleTable_def sampleCandidate_def tablesOverlap_def
          defaultBuffer_def Ex_less_Suc)
  have i: "t_id (tables twoTables ! 1) = ''table-b''"
    by (simp add: twoTables_def sampleCandidate_def)
  show ?thesis
    using handleDragEnd_rejects_or_commits [OF d l, of 30 30] o1
          handleDragEnd_rejects_or_commits [OF d l, of 100 100] o2
    unfolding i by (simp add: twoTables_def sampleCandidate_def)
qed

section \<open>Properties of the percentage-coordinate editor\<close>

text \<open>
  Claim C3, as the code has it. When the item is absent, cannot be parsed, or parses to
  a value that is falsy or has no \<open>floors\<close>, the load on mount and the load button both
  leave the state as it is. On mount that state is the initial one: exactly one floor,
  named "Floor 1", and on it the three tables T1, T2 and T3.
\<close>

theorem load_failure_keeps_default:
  "loadOnMount NoItem st = st \<and>
   loadOnMount Unparseable st = st \<and>
   loadOnMount (Parsed Falsy) st = st \<and>
   loadOnMount (Parsed NoFloors) st = st \<and>
   snd (handleLoadLayout NoItem st) = st \<and>
   snd (handleLoadLayout Unparseable st) = st \<and>
   snd (handleLoadLayout (Parsed Falsy) st) = st \<and>
   snd (handleLoadLayout (Parsed NoFloors) st) = st \<and>
   floorTabs initialState = [(''Floor 1'', 3)] \<and>
   map (map td_name \<circ> fl_tables) (floors initialState) = [[Some ''T1'', Some ''T2'', Some ''T3'']]"
  by (simp add: loadOnMount_def handleLoadLayout_def floorTabs_def initialState_def
        initialFloors_def)

text \<open>After a load on mount that finds no \<open>floors\<close>, "Floor 1" holds three tables, not none.\<close>

theorem load_failure_default_counterexample:
  "floorTabs (loadOnMount (Parsed NoFloors) initialState) = [(''Floor 1'', 3)] \<and>
   floorTabs (loadOnMount (Parsed NoFloors) initialState) \<noteq> [(''Floor 1'', 0)]"
  by (simp add: loadOnMount_def floorTabs_def initialState_def initialFloors_def)

text \<open>
  Claim C8. For a dimension above zero, \<open>fromPercent\<close> undoes \<open>toPercent\<close> and
  \<open>toPercent\<close> undoes \<open>fromPercent\<close>, in exact arithmetic.
\<close>

theorem percent_round_trip:
  "0 < d \<Longrightarrow> fromPercent (toPercent p d) d = p \<and> toPercent (fromPercent q d) d = q"
  by (simp add: fromPercent_def toPercent_def)

text \<open>A pixel position and a percentage on a stage 800 wide.\<close>

theorem percent_round_trip_witness:
  "fromPercent (toPercent 100 800) 800 = 100 \<and> toPercent (fromPercent (25 / 2) 800) 800 = 25 / 2"
  using percent_round_trip [of 800 100 "25 / 2"] by simp

lemma roundSeats_four:
  "roundSeats sw sh sz 4 =
     [(seatDistance sw sh sz, 0), (0, seatDistance sw sh sz),
      (- seatDistance sw sh sz, 0), (0, - seatDistance sw sh sz)]"
proof -
  have u: "[0..<nat 4] = [0, 1, 2, 3]" by (simp add: upt_rec)
  have a0: "seatAngle 4 0 = 0" by (simp add: seatAngle_def)
  have a1: "seatAngle 4 1 = pi / 2" by (simp add: seatAngle_def)
  have a2: "seatAngle 4 2 = pi" by (simp add: seatAngle_def)
  have a3: "seatAngle 4 3 = 3 / 2 * pi" by (simp add: seatAngle_def)
  have s0: "roundSeat sw sh sz 4 0 = (seatDistance sw sh sz, 0)"
    unfolding roundSeat_def a0 by simp
  have s1: "roundSeat sw sh sz 4 1 = (0, seatDistance sw sh sz)"
    unfolding roundSeat_def a1 by simp
  have s2: "roundSeat sw sh sz 4 2 = (- seatDistance sw sh sz, 0)"
    unfolding roundSeat_def a2 by simp
  have s3: "roundSeat sw sh sz 4 3 = (0, - seatDistance sw sh sz)"
    unfolding roundSeat_def a3 cos_3over2_pi sin_3over2_pi by simp
  show ?thesis
    unfolding roundSeats_def u list.map s0 s1 s2 s3 by (rule refl)
qed

lemma distance_roundSeat:
  "distanceFromCentre (roundSeat sw sh sz seats i) = \<bar>seatDistance sw sh sz\<bar>"
proof -
  have "(seatDistance sw sh sz * cos (seatAngle seats i))\<^sup>2 +
        (seatDistance sw sh sz * sin (seatAngle seats i))\<^sup>2
        = (seatDistance sw sh sz)\<^sup>2 * ((cos (seatAngle seats i))\<^sup>2 + (sin (seatAngle seats i))\<^sup>2)"
    by (simp only: power_mult_distrib distrib_left)
  also have "\<dots> = (seatDistance sw sh sz)\<^sup>2"
    by (simp only: sin_cos_squared_add2 mult_1_right)
  finally have e: "(seatDistance sw sh sz * cos (seatAngle seats i))\<^sup>2 +
        (seatDistance sw sh sz * sin (seatAngle seats i))\<^sup>2 = (seatDistance sw sh sz)\<^sup>2" .
  show ?thesis
    unfolding distanceFromCentre_def roundSeat_def fst_conv snd_conv e by simp
qed

text \<open>
  Claim C9, as the code has it. A round table with \<open>seats\<close> seats gets \<open>seats\<close> seat
  markers; marker \<open>i\<close> lies at the angle \<open>i * 2 * pi / seats\<close>, and on a stage of
  non-negative width and height at the distance
  \<open>radius * max 0.5 scale + 10 * scale\<close> from the centre, the radius being scaled by no
  less than a half. For a medium table that is \<open>35 * scale + 10 * scale\<close> when the scale
  factor is a half or more. With four seats the markers lie at 0, 90, 180 and 270
  degrees: right of, below, left of and above the centre in screen coordinates.
\<close>

theorem roundSeats_geometry:
  "length (roundSeats sw sh sz seats) = nat seats \<and>
   (\<forall>i<nat seats. roundSeats sw sh sz seats ! i =
      (seatDistance sw sh sz * cos (real i * 2 * pi / real_of_int seats),
       seatDistance sw sh sz * sin (real i * 2 * pi / real_of_int seats)) \<and>
      (0 \<le> sw \<and> 0 \<le> sh \<longrightarrow>
         distanceFromCentre (roundSeats sw sh sz seats ! i) = seatDistance sw sh sz)) \<and>
   seatDistance sw sh sz = roundRadius sz * max (1 / 2) (scaleFactor sw sh) + 10 * scaleFactor sw sh \<and>
   (1 / 2 \<le> scaleFactor sw sh \<longrightarrow>
      seatDistance sw sh Medium = 35 * scaleFactor sw sh + 10 * scaleFactor sw sh) \<and>
   roundSeats sw sh Medium 4 =
     [(seatDistance sw sh Medium, 0), (0, seatDistance sw sh Medium),
      (- seatDistance sw sh Medium, 0), (0, - seatDistance sw sh Medium)]"
proof (intro conjI allI impI)
  show "length (roundSeats sw sh sz seats) = nat seats"
    by (simp add: roundSeats_def)
next
  fix i assume i: "i < nat seats"
  show "roundSeats sw sh sz seats ! i =
      (seatDistance sw sh sz * cos (real i * 2 * pi / real_of_int seats),
       seatDistance sw sh sz * sin (real i * 2 * pi / real_of_int seats))"
    using i by (simp add: roundSeats_def roundSeat_def seatAngle_def)
next
  fix i assume i: "i < nat seats" and nn: "0 \<le> sw \<and> 0 \<le> sh"
  have "0 \<le> scaleFactor sw sh" using nn by (simp add: scaleFactor_def)
  moreover have "0 \<le> roundRadius sz" by (cases sz) simp_all
  ultimately have "0 \<le> seatDistance sw sh sz"
    by (simp add: seatDistance_def scaledRadius_def)
  then show "distanceFromCentre (roundSeats sw sh sz seats ! i) = seatDistance sw sh sz"
    using i distance_roundSeat[of sw sh sz seats i] by (simp add: roundSeats_def)
next
  show "seatDistance sw sh sz = roundRadius sz * max (1 / 2) (scaleFactor sw sh) + 10 * scaleFactor sw sh"
    by (simp add: seatDistance_def scaledRadius_def)
next
  assume "1 / 2 \<le> scaleFactor sw sh"
  then show "seatDistance sw sh Medium = 35 * scaleFactor sw sh + 10 * scaleFactor sw sh"
    by (simp add: seatDistance_def scaledRadius_def max_def)
next
  show "roundSeats sw sh Medium 4 =
     [(seatDistance sw sh Medium, 0), (0, seatDistance sw sh Medium),
      (- seatDistance sw sh Medium, 0), (0, - seatDistance sw sh Medium)]"
    by (rule roundSeats_four)
qed

text \<open>The second marker of a medium table with four seats on a stage of 800 by 600.\<close>

theorem roundSeats_geometry_witness:
  "roundSeats 800 600 Medium 4 ! 1 = (0, 135 / 4) \<and>
   distanceFromCentre (roundSeats 800 600 Medium 4 ! 1) = 135 / 4 \<and>
   seatDistance 800 600 Medium = 35 * scaleFactor 800 600 + 10 * scaleFactor 800 600"
proof -
  note g = roundSeats_geometry [of 800 600 Medium 4]
  have d: "seatDistance 800 600 Medium = 135 / 4"
    by (simp add: seatDistance_def scaledRadius_def scaleFactor_def)
  have "roundSeats 800 600 Medium 4 ! 1 = (0, 135 / 4)"
    using g d by simp
  moreover have "distanceFromCentre (roundSeats 800 600 Medium 4 ! 1) = 135 / 4"
  proof -
    have h: "1 < nat 4" by simp
    have nn: "(0::real) \<le> 800 \<and> (0::real) \<le> 600" by simp
    note k = g [THEN conjunct2, THEN conjunct1, THEN spec, of 1, THEN mp, OF h]
    have "distanceFromCentre (roundSeats 800 600 Medium 4 ! 1) = seatDistance 800 600 Medium"
      by (rule k [THEN conjunct2, THEN mp, OF nn])
    then show ?thesis unfolding d .
  qed
  moreover have "seatDistance 800 600 Medium = 35 * scaleFactor 800 600 + 10 * scaleFactor 800 600"
    using g by (simp add: scaleFactor_def)
  ultimately show ?thesis by blast
qed

text \<open>
  On a stage of 320 by 240 the scale factor is 0.3, and the first marker of a medium
  table lies at distance 20.5, not at \<open>35 * 0.3 + 10 * 0.3 = 13.5\<close>.
\<close>

theorem roundSeats_distance_counterexample:
  "distanceFromCentre (roundSeats 320 240 Medium 4 ! 0)
     \<noteq> 35 * scaleFactor 320 240 + 10 * scaleFactor 320 240"
proof -
  have "roundSeats 320 240 Medium 4 ! 0 = (41 / 2, 0)"
    by (simp add: roundSeats_four seatDistance_def scaledRadius_def scaleFactor_def)
  then show ?thesis
    by (simp add: distanceFromCentre_def scaleFactor_def)
qed

subsection \<open>The floors of a reachable state\<close>

lemma map_fl_id_tables:
  "fl_id \<circ> (\<lambda>fl. if P fl then fl else fl\<lparr>fl_tables := g fl\<rparr>) = fl_id"
  by (auto simp: fun_eq_iff)

lemma length_filter_distinct:
  "distinct (map f xs) \<Longrightarrow> length xs \<le> Suc (length (filter (\<lambda>x. f x \<noteq> a) xs))"
proof (induction xs)
  case Nil
  then show ?case by simp
next
  case (Cons x xs)
  show ?case
  proof (cases "f x = a")
    case True
    then have "\<forall>y\<in>set xs. f y \<noteq> a" using Cons.prems by (force simp: image_iff)
    then have "filter (\<lambda>x. f x \<noteq> a) xs = xs" by (simp add: filter_id_conv)
    then show ?thesis using True by simp
  next
    case False
    then show ?thesis using Cons by simp
  qed
qed

lemma handleDeleteFloor_last:
  "length (floors st) \<le> 1 \<Longrightarrow> handleDeleteFloor floorId confirmDelete st = Inr (Some LastFloor, st)"
  by (simp add: handleDeleteFloor_def)

lemma handleDeleteFloor_confirmed:
  assumes "1 < length (floors st)" and "distinct (map fl_id (floors st))"
  shows "\<exists>st'. handleDeleteFloor floorId True st = Inr (None, st') \<and>
           floors st' = filter (\<lambda>fl. fl_id fl \<noteq> floorId) (floors st) \<and>
           floors st' \<noteq> [] \<and>
           length (floors st) \<le> Suc (length (floors st')) \<and>
           distinct (map fl_id (floors st')) \<and>
           currentFloorId st' =
             (if floorId = currentFloorId st then fl_id (hd (floors st')) else currentFloorId st)"
proof -
  let ?u = "filter (\<lambda>fl. fl_id fl \<noteq> floorId) (floors st)"
  have len: "length (floors st) \<le> Suc (length ?u)"
    using assms(2) by (rule length_filter_distinct)
  then have ne: "?u \<noteq> []" using assms(1) by auto
  then obtain fl rest where u: "?u = fl # rest" by (cases ?u) auto
  have d: "distinct (map fl_id ?u)" using assms(2) by (simp add: distinct_map_filter)
  show ?thesis
  proof (cases "floorId = currentFloorId st")
    case True
    have "handleDeleteFloor floorId True st
            = Inr (None, st\<lparr>floors := ?u, currentFloorId := fl_id fl\<rparr>)"
      using assms(1) True u by (simp add: handleDeleteFloor_def Let_def)
    then show ?thesis using len ne d u True by simp
  next
    case False
    have "handleDeleteFloor floorId True st = Inr (None, st\<lparr>floors := ?u\<rparr>)"
      using assms(1) False by (simp add: handleDeleteFloor_def Let_def)
    then show ?thesis using len ne d False by simp
  qed
qed

lemma step_floor_count:
  assumes "\<forall>i. c \<noteq> DeleteFloor i True" and "\<forall>l. c \<noteq> LoadLayout l"
  shows "\<exists>st'. step c st = Inr st' \<and> length (floors st) \<le> length (floors st')"
proof (cases c)
  case (DeleteFloor i b)
  then have "\<not> b" using assms(1) by auto
  then show ?thesis using DeleteFloor
    by (simp add: handleDeleteFloor_def)
next
  case (LoadLayout l)
  then show ?thesis using assms(2) by simp
qed (simp_all add: handleAddFloor_def handleSwitchFloor_def handleTableSelect_def
       handleTableDragEnd_def handleTableRotate_def handleAddTable_def handleRemoveTable_def
       handleUpdateTableSeats_def handleUpdateTableName_def Let_def split: option.splits)

lemma step_invariant:
  assumes "floors st \<noteq> []" and "distinct (map fl_id (floors st))"
    and "admissible c st" and "step c st = Inr st'"
  shows "floors st' \<noteq> [] \<and> distinct (map fl_id (floors st'))"
proof (cases c)
  case (AddFloor now)
  then show ?thesis using assms
    by (auto simp: handleAddFloor_def Let_def split: if_splits)
next
  case (DeleteFloor i b)
  show ?thesis
  proof (cases "1 < length (floors st) \<and> b")
    case True
    then obtain s where s: "handleDeleteFloor i True st = Inr (None, s)"
      "floors s \<noteq> []" "distinct (map fl_id (floors s))"
      using handleDeleteFloor_confirmed[OF _ assms(2), of i] by blast
    then have "st' = s" using assms(4) DeleteFloor True by simp
    then show ?thesis using s by simp
  next
    case False
    then have "st' = st" using assms(4) DeleteFloor
      by (auto simp: handleDeleteFloor_def split: if_splits)
    then show ?thesis using assms by simp
  qed
next
  case (LoadLayout l)
  show ?thesis
  proof (cases l)
    case (Parsed p)
    then show ?thesis using assms LoadLayout
      by (cases p) (auto simp: handleLoadLayout_def Let_def split: list.splits)
  qed (use assms LoadLayout in \<open>auto simp: handleLoadLayout_def\<close>)
next
  case (TableSelect i)
  then show ?thesis using assms
    by (auto simp: handleTableSelect_def Let_def split: option.splits if_splits)
next
  case (TableDragEnd i px py)
  then show ?thesis using assms
    by (auto simp: handleTableDragEnd_def map_fl_id_tables)
next
  case (TableRotate i r)
  then show ?thesis using assms
    by (auto simp: handleTableRotate_def map_fl_id_tables)
next
  case (AddTable now)
  then show ?thesis using assms
    by (auto simp: handleAddTable_def Let_def map_fl_id_tables)
next
  case RemoveTable
  then show ?thesis using assms
    by (auto simp: handleRemoveTable_def map_fl_id_tables split: if_splits)
next
  case (UpdateTableSeats n)
  then show ?thesis using assms
    by (auto simp: handleUpdateTableSeats_def map_fl_id_tables split: if_splits)
next
  case (UpdateTableName n)
  then show ?thesis using assms
    by (auto simp: handleUpdateTableName_def map_fl_id_tables split: if_splits)
qed (use assms in \<open>auto simp: handleSwitchFloor_def\<close>)

lemma reachable_invariant:
  "reachable st \<Longrightarrow> floors st \<noteq> [] \<and> distinct (map fl_id (floors st))"
proof (induction rule: reachable.induct)
  case reachable_init
  show ?case by (simp add: initialState_def initialFloors_def)
next
  case (reachable_step st c st')
  then show ?case using step_invariant by blast
qed

text \<open>
  Claim C5, as the code has it. Call a state reachable when it comes from the initial
  state by commands in which the id made for a new floor is new and a layout that is
  loaded has at least one floor and pairwise distinct floor ids. In a reachable state:
  there is at least one floor; \<open>handleDeleteFloor\<close> on exactly one floor alerts
  \<open>LastFloor\<close> and leaves the state as it is; on more than one floor a confirmed
  \<open>handleDeleteFloor\<close> keeps the floors with another id, at least one of them and at most
  one fewer than before, and when the deleted floor was the current one the current
  floor becomes the first that remains; a command other than a confirmed deletion and
  a load never lowers the number of floors; and every admissible command runs without
  an error into a reachable state with at least one floor.
\<close>

theorem floors_never_empty:
  assumes "reachable st"
  shows "floors st \<noteq> [] \<and>
    (length (floors st) = 1 \<longrightarrow>
       handleDeleteFloor floorId confirmDelete st = Inr (Some LastFloor, st)) \<and>
    (1 < length (floors st) \<longrightarrow>
       (\<exists>st'. handleDeleteFloor floorId True st = Inr (None, st') \<and>
          floors st' = filter (\<lambda>fl. fl_id fl \<noteq> floorId) (floors st) \<and>
          floors st' \<noteq> [] \<and>
          length (floors st) \<le> Suc (length (floors st')) \<and>
          currentFloorId st' =
            (if floorId = currentFloorId st then fl_id (hd (floors st'))
             else currentFloorId st))) \<and>
    ((\<forall>i. c \<noteq> DeleteFloor i True) \<and> (\<forall>l. c \<noteq> LoadLayout l) \<longrightarrow>
       (\<exists>st'. step c st = Inr st' \<and> length (floors st) \<le> length (floors st'))) \<and>
    (admissible c st \<longrightarrow> (\<exists>st'. step c st = Inr st' \<and> reachable st' \<and> floors st' \<noteq> []))"
proof (intro conjI impI)
  note inv = reachable_invariant[OF assms]
  show "floors st \<noteq> []" using inv by simp
  show "handleDeleteFloor floorId confirmDelete st = Inr (Some LastFloor, st)"
    if "length (floors st) = 1"
    using that by (simp add: handleDeleteFloor_last)
  show "\<exists>st'. handleDeleteFloor floorId True st = Inr (None, st') \<and>
          floors st' = filter (\<lambda>fl. fl_id fl \<noteq> floorId) (floors st) \<and>
          floors st' \<noteq> [] \<and>
          length (floors st) \<le> Suc (length (floors st')) \<and>
          currentFloorId st' =
            (if floorId = currentFloorId st then fl_id (hd (floors st'))
             else currentFloorId st)"
    if "1 < length (floors st)"
    using handleDeleteFloor_confirmed[OF that, of floorId] inv by blast
  show "\<exists>st'. step c st = Inr st' \<and> length (floors st) \<le> length (floors st')"
    if "(\<forall>i. c \<noteq> DeleteFloor i True) \<and> (\<forall>l. c \<noteq> LoadLayout l)"
    using that step_floor_count by blast
  show "\<exists>st'. step c st = Inr st' \<and> reachable st' \<and> floors st' \<noteq> []"
    if adm: "admissible c st"
  proof -
    have "\<exists>st'. step c st = Inr st'"
    proof (cases c)
      case (DeleteFloor i b)
      show ?thesis
      proof (cases "1 < length (floors st) \<and> b")
        case True
        then show ?thesis
          using handleDeleteFloor_confirmed[of st i] inv DeleteFloor by auto
      next
        case False
        then show ?thesis using DeleteFloor
          by (auto simp: handleDeleteFloor_def)
      qed
    qed simp_all
    then obtain st' where s: "step c st = Inr st'" by blast
    then have r: "reachable st'" using assms adm by (rule reachable_step[rotated 2])
    then show ?thesis using s reachable_invariant by blast
  qed
qed

text \<open>The state after adding a floor at clock 5 is reachable.\<close>

lemma decimal_5: "decimal 5 = ''5''"
  by code_simp

lemma reachable_twoFloors: "reachable twoFloors"
proof -
  have 1: "reachable (initialState\<lparr>newFloorName := ''Terrace''\<rparr>)"
    by (rule reachable_step[OF reachable_init, of "SetNewFloorName ''Terrace''"]) simp_all
  show ?thesis
    unfolding twoFloors_def
    by (rule reachable_step[OF 1, of "AddFloor 5"])
       (simp_all add: floorIdAt_def decimal_5 initialState_def initialFloors_def)
qed

text \<open>
  The only floor of the initial state cannot be deleted; with the second floor added
  and current, deleting it leaves "floor-1" and makes it the current floor.
\<close>

theorem floors_never_empty_witness:
  "floors twoFloors \<noteq> [] \<and>
   handleDeleteFloor ''floor-1'' True initialState = Inr (Some LastFloor, initialState) \<and>
   map_sum id (map fl_id \<circ> floors \<circ> snd) (handleDeleteFloor ''floor-5'' True twoFloors) = Inr [''floor-1''] \<and>
   map_sum id (currentFloorId \<circ> snd) (handleDeleteFloor ''floor-5'' True twoFloors) = Inr ''floor-1''"
  using floors_never_empty [OF reachable_twoFloors, of "''floor-5''" True "SwitchFloor ''floor-1''"]
    floors_never_empty [OF reachable_init, of "''floor-1''" True "SwitchFloor ''floor-1''"]
  by (auto simp: twoFloors_def handleAddFloor_def trim_def isWhiteSpace_def floorIdAt_def decimal_5
      initialState_def initialFloors_def Let_def)

text \<open>
  Loading a layout whose \<open>floors\<close> is the empty array leaves no floor at all, by the
  button as on mount.
\<close>

theorem floors_never_empty_counterexample:
  "floors (snd (handleLoadLayout (Parsed (Layout None [])) initialState)) = [] \<and>
   floors (loadOnMount (Parsed (Layout None [])) initialState) = []"
  by (simp add: handleLoadLayout_def loadOnMount_def)

end
